theory Spec2Isabelle
  imports Complex_Main "HOL-Library.Sublist"
begin

section \<open>Python values used by the playback session\<close>

text \<open>
  A Python float is modelled by its value: a rational number, one of the two
  infinities, or NaN. The session only compares floats (it never does
  arithmetic on them), so the rounding of floating-point arithmetic plays no
  role. Every comparison with NaN is false, as in Python.
\<close>

datatype pyfloat = NaN | NegInf | Fin rat | PosInf

fun flt :: "pyfloat \<Rightarrow> pyfloat \<Rightarrow> bool" where
  "flt NaN _ = False"
| "flt _ NaN = False"
| "flt NegInf NegInf = False"
| "flt NegInf _ = True"
| "flt (Fin a) (Fin b) = (a < b)"
| "flt (Fin a) PosInf = True"
| "flt (Fin a) NegInf = False"
| "flt PosInf _ = False"

text \<open>
  The builtins \<^verbatim>\<open>min(a, b)\<close> and \<^verbatim>\<open>max(a, b)\<close> keep the first
  argument unless the second one is strictly smaller (strictly greater).
\<close>

definition pymin :: "pyfloat \<Rightarrow> pyfloat \<Rightarrow> pyfloat" where
  "pymin a b = (if flt b a then b else a)"

definition pymax :: "pyfloat \<Rightarrow> pyfloat \<Rightarrow> pyfloat" where
  "pymax a b = (if flt a b then b else a)"

fun in_unit :: "pyfloat \<Rightarrow> bool" where
  "in_unit (Fin r) = (0 \<le> r \<and> r \<le> 1)"
| "in_unit _ = False"

text \<open>
  The values a resolver result is built from (the info dictionary of the
  extraction backend is a \<^verbatim>\<open>Dict[str, Any]\<close>). A dictionary is an
  association list; a lookup takes the first entry of a key.
\<close>

datatype pyval =
    PNone
  | PBool bool
  | PInt int
  | PFloat pyfloat
  | PStr string
  | PList "pyval list"
  | PDict "(string \<times> pyval) list"

text \<open>Truthiness, as \<^verbatim>\<open>not data\<close> tests it.\<close>

fun truthy :: "pyval \<Rightarrow> bool" where
  "truthy PNone = False"
| "truthy (PBool b) = b"
| "truthy (PInt n) = (n \<noteq> 0)"
| "truthy (PFloat NaN) = True"
| "truthy (PFloat NegInf) = True"
| "truthy (PFloat PosInf) = True"
| "truthy (PFloat (Fin r)) = (r \<noteq> 0)"
| "truthy (PStr s) = (s \<noteq> [])"
| "truthy (PList xs) = (xs \<noteq> [])"
| "truthy (PDict kvs) = (kvs \<noteq> [])"

text \<open>\<^verbatim>\<open>d.get(k, default)\<close> on a dictionary.\<close>

definition dict_get :: "(string \<times> pyval) list \<Rightarrow> string \<Rightarrow> pyval \<Rightarrow> pyval" where
  "dict_get d k dflt = (case map_of d k of None \<Rightarrow> dflt | Some v \<Rightarrow> v)"

section \<open>The session: \<^verbatim>\<open>MusicPlayer\<close>\<close>

text \<open>
  A queued track is the \<^verbatim>\<open>song_info\<close> dictionary that
  \<^verbatim>\<open>add_to_queue\<close> builds: six fixed keys.
\<close>

record track =
  url :: pyval
  title :: pyval
  duration :: pyval
  webpage_url :: pyval
  thumbnail :: pyval
  requester :: string

text \<open>
  The player loop is a coroutine; \<open>pc\<close> is the \<^verbatim>\<open>await\<close> at which it is
  suspended. Code between two suspension points runs without interleaving
  (asyncio is cooperative).
\<close>

datatype pc =
    WaitReady        \<comment> \<open>\<^verbatim>\<open>await self.bot.wait_until_ready()\<close>\<close>
  | WaitEmpty        \<comment> \<open>\<^verbatim>\<open>await self.next.wait()\<close> under \<^verbatim>\<open>timeout(300)\<close>\<close>
  | Starting         \<comment> \<open>resolving the popped track, before \<^verbatim>\<open>voice_client.play\<close>\<close>
  | SendingFallback pyval  \<comment> \<open>\<^verbatim>\<open>await self.ctx.send(...)\<close>, the fallback notice; the local \<^verbatim>\<open>song_title\<close>\<close>
  | SendingNow       \<comment> \<open>\<^verbatim>\<open>await self.ctx.send(...)\<close>, the now-playing message\<close>
  | SendingErr       \<comment> \<open>\<^verbatim>\<open>await self.ctx.send(...)\<close> in the handler of a failed start\<close>
  | WaitNext         \<comment> \<open>\<^verbatim>\<open>await self.next.wait()\<close> at the end of the loop body\<close>
  | Sleeping         \<comment> \<open>\<^verbatim>\<open>await asyncio.sleep(1)\<close> in the outer handler\<close>
  | Returned         \<comment> \<open>the coroutine has ended\<close>

text \<open>
  The state of the task \<^verbatim>\<open>self.audio_player\<close> that runs the loop.
  \<^verbatim>\<open>cancelled()\<close> holds of \<open>Cancelled\<close> only: after \<^verbatim>\<open>cancel()\<close> the task is
  \<open>CancelRequested\<close> until the \<^verbatim>\<open>CancelledError\<close> has ended the coroutine.
\<close>

datatype task_state = Running | CancelRequested | Cancelled

text \<open>
  The voice client \<^verbatim>\<open>self.ctx.voice_client\<close> as the session sees it:
  absent (\<^verbatim>\<open>None\<close>), or present with the track it is streaming, if any, and
  the volume of its source. The source is taken to be there exactly while the
  client streams.
\<close>

datatype voice = NoVoice | Voice "track option" pyfloat

fun is_playing :: "voice \<Rightarrow> bool" where
  "is_playing (Voice (Some t) v) = True"
| "is_playing _ = False"

fun streaming :: "voice \<Rightarrow> track option" where
  "streaming (Voice p v) = p"
| "streaming NoVoice = None"

text \<open>
  The fields of \<^verbatim>\<open>MusicPlayer\<close>. \<open>next_flag\<close> is the \<^verbatim>\<open>asyncio.Event\<close>
  \<^verbatim>\<open>self.next\<close>; \<open>pending\<close> counts the \<^verbatim>\<open>self.next.set\<close> callbacks that
  \<^verbatim>\<open>_song_finished\<close> has scheduled with \<^verbatim>\<open>call_soon_threadsafe\<close> and that
  have not run yet; \<open>pc\<close> and \<open>task\<close> are the state of the coroutine and of the
  task \<^verbatim>\<open>self.audio_player\<close>.
\<close>

record session =
  queue :: "track list"
  current :: "track option"
  next_flag :: bool
  pending :: nat
  volume :: pyfloat
  pc :: pc
  task :: task_state
  voice_client :: voice

text \<open>
  \<^verbatim>\<open>MusicPlayer.__init__\<close>: an empty queue, no current track, volume 0.5,
  the loop task created. The voice client is the one of the invoking context.
\<close>

definition new_player :: "voice \<Rightarrow> session" where
  "new_player vc =
     \<lparr> queue = [], current = None, next_flag = False, pending = 0,
       volume = Fin (1 / 2), pc = WaitReady, task = Running, voice_client = vc \<rparr>"

text \<open>
  \<^verbatim>\<open>set_volume\<close>: the clamped value is stored; it is copied to the source of
  the voice client when there is one.
\<close>

definition set_volume :: "pyfloat \<Rightarrow> session \<Rightarrow> session" where
  "set_volume v s =
     (let s1 = s\<lparr>volume := pymax (Fin 0) (pymin (Fin 1) v)\<rparr>
      in case voice_client s1 of
           Voice (Some t) w \<Rightarrow> s1\<lparr>voice_client := Voice (Some t) (volume s1)\<rparr>
         | _ \<Rightarrow> s1)"

section \<open>Enqueue: \<^verbatim>\<open>add_to_queue\<close>\<close>

text \<open>
  The exceptions that \<^verbatim>\<open>add_to_queue\<close> can meet or raise. The messages of
  the exceptions it raises itself are kept structured: \<open>CouldNotProcess q e\<close> is
  \<^verbatim>\<open>Exception(f"Could not process {query}: {str(e)}")\<close>.
\<close>

datatype exc =
    ExtractError string  \<comment> \<open>raised by \<^verbatim>\<open>ytdl.extract_info\<close>; the string is its \<^verbatim>\<open>str()\<close>\<close>
  | TypeError
  | IndexError
  | KeyError
  | AttributeError
  | NoMatch              \<comment> \<open>\<^verbatim>\<open>Exception("Could not find any matching songs.")\<close>\<close>
  | AuthRequired         \<comment> \<open>\<^verbatim>\<open>Exception("YouTube requires authentication. Please check your cookies.txt file.")\<close>\<close>
  | CouldNotProcess string exc

text \<open>\<^verbatim>\<open>needle in haystack\<close> on strings.\<close>

fun contains :: "string \<Rightarrow> string \<Rightarrow> bool" where
  "contains [] needle = (needle = [])"
| "contains (c # cs) needle = (prefix needle (c # cs) \<or> contains cs needle)"

text \<open>
  \<^verbatim>\<open>"Sign in to confirm" in str(e) or "Please sign in" in str(e)\<close>. Only the
  text of an extraction error can hold these phrases: the messages of the
  builtin exceptions and of \<open>NoMatch\<close> are fixed texts without them.
\<close>

fun asks_sign_in :: "exc \<Rightarrow> bool" where
  "asks_sign_in (ExtractError m) =
     (contains m ''Sign in to confirm'' \<or> contains m ''Please sign in'')"
| "asks_sign_in _ = False"

text \<open>
  What the session takes from outside its own code: the outcome of matching
  the two patterns of \<^verbatim>\<open>is_url\<close> (the \<^verbatim>\<open>re\<close> module) and the builtin
  \<^verbatim>\<open>int\<close> on a string (\<open>None\<close> is \<^verbatim>\<open>ValueError\<close>).
\<close>

record env =
  re_is_url :: "string \<Rightarrow> bool"
  int_of_str :: "string \<Rightarrow> int option"

text \<open>
  \<^verbatim>\<open>str.strip()\<close> removes the whitespace characters at both ends; these are
  the whitespace code points below 256.
\<close>

definition is_space :: "char \<Rightarrow> bool" where
  "is_space c = ((of_char c :: nat) \<in> set [9, 10, 11, 12, 13, 28, 29, 30, 31, 32, 133, 160])"

definition strip :: "string \<Rightarrow> string" where
  "strip s = rev (dropWhile is_space (rev (dropWhile is_space s)))"

text \<open>
  The query handed to the resolver:
  \<^verbatim>\<open>query.replace('(', '').replace(')', '').strip()\<close> behind \<^verbatim>\<open>ytsearch:\<close>,
  unless the text is a URL.
\<close>

definition effective_query :: "env \<Rightarrow> string \<Rightarrow> string" where
  "effective_query E query =
     (if \<not> re_is_url E query
      then ''ytsearch:'' @ strip (filter (\<lambda>c. c \<noteq> CHR '')'') (filter (\<lambda>c. c \<noteq> CHR ''('') query))
      else query)"

text \<open>\<^verbatim>\<open>'entries' in data\<close>: a key of a dictionary, an element of a list, a
  piece of a string; a \<^verbatim>\<open>TypeError\<close> on anything else.\<close>

fun has_entries :: "pyval \<Rightarrow> exc + bool" where
  "has_entries (PDict d) = Inr (map_of d ''entries'' \<noteq> None)"
| "has_entries (PList xs) = Inr (PStr ''entries'' \<in> set xs)"
| "has_entries (PStr s) = Inr (contains s ''entries'')"
| "has_entries _ = Inl TypeError"

text \<open>\<^verbatim>\<open>data['entries']\<close>, evaluated only when \<^verbatim>\<open>'entries' in data\<close> holds.\<close>

fun get_entries :: "pyval \<Rightarrow> exc + pyval" where
  "get_entries (PDict d) = (case map_of d ''entries'' of None \<Rightarrow> Inl KeyError | Some v \<Rightarrow> Inr v)"
| "get_entries _ = Inl TypeError"

text \<open>\<^verbatim>\<open>v[0]\<close>.\<close>

fun index0 :: "pyval \<Rightarrow> exc + pyval" where
  "index0 (PList []) = Inl IndexError"
| "index0 (PList (x # xs)) = Inr x"
| "index0 (PStr []) = Inl IndexError"
| "index0 (PStr (c # cs)) = Inr (PStr [c])"
| "index0 (PDict d) = Inl KeyError"
| "index0 _ = Inl TypeError"

text \<open>
  Lines 341 to 345: the first entry of a result that has entries, and the
  rejection of an empty result.
\<close>

definition select_entry :: "pyval \<Rightarrow> exc + pyval" where
  "select_entry data =
     (case has_entries data of
        Inl e \<Rightarrow> Inl e
      | Inr b \<Rightarrow>
          (case (if b then (case get_entries data of Inl e \<Rightarrow> Inl e | Inr v \<Rightarrow> index0 v)
                 else Inr data) of
             Inl e \<Rightarrow> Inl e
           | Inr data1 \<Rightarrow> if \<not> truthy data1 then Inl NoMatch else Inr data1))"

text \<open>Lines 347 to 355: the duration.\<close>

definition process_duration :: "env \<Rightarrow> pyval \<Rightarrow> pyval" where
  "process_duration E d =
     (case d of
        PNone \<Rightarrow> PInt 0
      | PStr s \<Rightarrow> (case int_of_str E s of Some n \<Rightarrow> PInt n | None \<Rightarrow> PInt 0)
      | _ \<Rightarrow> d)"

text \<open>
  Lines 347 to 365: the \<^verbatim>\<open>song_info\<close> dictionary. Only a dictionary has
  \<^verbatim>\<open>get\<close>; any other (truthy) value ends in an \<^verbatim>\<open>AttributeError\<close>.
\<close>

definition song_info :: "env \<Rightarrow> string \<Rightarrow> pyval \<Rightarrow> exc + track" where
  "song_info E author data =
     (case data of
        PDict d \<Rightarrow>
          Inr \<lparr> url = dict_get d ''url'' (dict_get d ''webpage_url'' PNone),
                title = dict_get d ''title'' (PStr ''Unknown title''),
                duration = process_duration E (dict_get d ''duration'' PNone),
                webpage_url = dict_get d ''webpage_url'' PNone,
                thumbnail = dict_get d ''thumbnail'' PNone,
                requester = author \<rparr>
      | _ \<Rightarrow> Inl AttributeError)"

text \<open>
  Lines 336 to 365, everything before the queue is touched. The outcome of
  the resolver call is \<open>Inl m\<close> when \<^verbatim>\<open>ytdl.extract_info\<close> raised (with
  message \<open>m\<close>) and \<open>Inr data\<close> when it returned \<open>data\<close>.
\<close>

definition build_track :: "env \<Rightarrow> string \<Rightarrow> string + pyval \<Rightarrow> exc + track" where
  "build_track E author outcome =
     (case outcome of
        Inl m \<Rightarrow> Inl (ExtractError m)
      | Inr data \<Rightarrow>
          (case select_entry data of
             Inl e \<Rightarrow> Inl e
           | Inr data1 \<Rightarrow> song_info E author data1))"

text \<open>
  The inner \<^verbatim>\<open>try\<close> block. After the append, \<^verbatim>\<open>self.ctx.voice_client.is_playing()\<close>
  is an \<^verbatim>\<open>AttributeError\<close> when there is no voice client.
\<close>

definition enqueue_try :: "env \<Rightarrow> string \<Rightarrow> string + pyval \<Rightarrow> session \<Rightarrow> (exc + track) \<times> session" where
  "enqueue_try E author outcome s =
     (case build_track E author outcome of
        Inl e \<Rightarrow> (Inl e, s)
      | Inr t \<Rightarrow>
          (let s1 = s\<lparr>queue := queue s @ [t]\<rparr>
           in if voice_client s1 = NoVoice then (Inl AttributeError, s1)
              else if \<not> is_playing (voice_client s1) then (Inr t, s1\<lparr>next_flag := True\<rparr>)
              else (Inr t, s1)))"

text \<open>
  \<^verbatim>\<open>add_to_queue\<close>: the two handlers wrap whatever the inner block raised.
  The call is taken at its completion: from the return of the resolver to the
  return of \<^verbatim>\<open>add_to_queue\<close> there is no suspension point.
\<close>

definition add_to_queue :: "env \<Rightarrow> string \<Rightarrow> string \<Rightarrow> string + pyval \<Rightarrow> session \<Rightarrow> (exc + track) \<times> session" where
  "add_to_queue E author query outcome s =
     (let q = effective_query E query
      in case enqueue_try E author outcome s of
           (Inl e, s') \<Rightarrow>
             (Inl (CouldNotProcess q (if asks_sign_in e then AuthRequired else CouldNotProcess q e)), s')
         | (Inr t, s') \<Rightarrow> (Inr t, s'))"

text \<open>
  The reading of \<^verbatim>\<open>durationSeconds >= 0\<close> on a value: it holds of a
  non-negative number and of nothing else.
\<close>

fun nonneg :: "pyval \<Rightarrow> bool" where
  "nonneg (PInt n) = (0 \<le> n)"
| "nonneg (PBool b) = True"
| "nonneg (PFloat (Fin r)) = (0 \<le> r)"
| "nonneg (PFloat PosInf) = True"
| "nonneg _ = False"

section \<open>Skip, stop and cleanup\<close>

text \<open>
  \<^verbatim>\<open>voice_client.stop()\<close> on a client that streams, and equally the natural end
  of a stream: the stream is over and the \<^verbatim>\<open>after\<close> callback runs, which
  schedules \<^verbatim>\<open>_song_finished\<close>, which schedules \<^verbatim>\<open>self.next.set\<close>.
\<close>

definition vc_stop :: "session \<Rightarrow> session" where
  "vc_stop s =
     (case voice_client s of
        Voice (Some t) w \<Rightarrow> s\<lparr>voice_client := Voice None w, pending := Suc (pending s)\<rparr>
      | _ \<Rightarrow> s)"

definition skip :: "session \<Rightarrow> session" where
  "skip s =
     (if voice_client s \<noteq> NoVoice \<and> is_playing (voice_client s) then vc_stop s else s)"

definition stop :: "session \<Rightarrow> session" where
  "stop s =
     (let s1 = s\<lparr>queue := []\<rparr>
      in if voice_client s1 \<noteq> NoVoice \<and> is_playing (voice_client s1) then vc_stop s1 else s1)"

text \<open>
  \<^verbatim>\<open>await self.ctx.voice_client.disconnect()\<close> either goes through (the client
  stops streaming and is gone) or raises.
\<close>

datatype disc_result = Disconnected | DisconnectError string

text \<open>
  The body of the \<^verbatim>\<open>try\<close> in \<^verbatim>\<open>cleanup\<close>, with the exception that leaves it,
  if any.
\<close>

definition cleanup_try :: "disc_result \<Rightarrow> session \<Rightarrow> string option \<times> session" where
  "cleanup_try d s =
     (let s1 = s\<lparr>queue := []\<rparr>;
          s2 = (if task s1 \<noteq> Cancelled then s1\<lparr>task := CancelRequested\<rparr> else s1)
      in if voice_client s2 \<noteq> NoVoice
         then (case d of
                 Disconnected \<Rightarrow> (None, (vc_stop s2)\<lparr>voice_client := NoVoice\<rparr>)
               | DisconnectError m \<Rightarrow> (Some m, s2))
         else (None, s2))"

text \<open>
  \<^verbatim>\<open>cleanup\<close>: the handler logs the exception. The first component is the
  exception that leaves \<^verbatim>\<open>cleanup\<close>.
\<close>

definition cleanup :: "disc_result \<Rightarrow> session \<Rightarrow> string option \<times> session" where
  "cleanup d s =
     (case cleanup_try d s of
        (Some m, s') \<Rightarrow> (None, s')
      | (None, s') \<Rightarrow> (None, s'))"

section \<open>The player loop\<close>

datatype message =
    NowPlaying pyval     \<comment> \<open>\<^verbatim>\<open>Now playing: **{song_title}**\<close>\<close>
  | FallbackNotice       \<comment> \<open>\<^verbatim>\<open>Using fallback audio player (volume control unavailable)\<close>\<close>
  | ErrorPlaying string  \<comment> \<open>\<^verbatim>\<open>Error playing track: {str(e)}\<close>\<close>

text \<open>
  What a step does that is seen outside the session: a message sent to the
  channel (\<^verbatim>\<open>self.ctx.send\<close>), a source handed to \<^verbatim>\<open>voice_client.play\<close>, a
  track taken from the head of the queue (\<^verbatim>\<open>self.queue.pop(0)\<close>, logged as
  the next track), a track appended (\<^verbatim>\<open>self.queue.append\<close>, logged).
\<close>

datatype effect = Send message | Play track | Popped track | Appended track

text \<open>
  The outcome of lines 262 to 296: the source was resolved and handed to
  \<^verbatim>\<open>voice_client.play\<close> (with the title found and whether the fallback path
  was taken), or an exception was raised on the way.
\<close>

datatype start_result = Started pyval bool | StartFailed string

datatype send_result = Sent | SendError string

text \<open>Lines 259 and 260, then the suspension in the resolver.\<close>

definition take_next :: "track \<Rightarrow> track list \<Rightarrow> session \<Rightarrow> session \<times> effect list" where
  "take_next t q s = (s\<lparr>current := Some t, queue := q, pc := Starting\<rparr>, [Popped t])"

text \<open>
  From the head of the \<^verbatim>\<open>while\<close> to the next suspension: the event is
  cleared; an empty queue suspends in the wait under the timeout.
\<close>

definition loop_top :: "session \<Rightarrow> session \<times> effect list" where
  "loop_top s =
     (let s1 = s\<lparr>next_flag := False\<rparr>
      in case queue s1 of
           [] \<Rightarrow> (s1\<lparr>pc := WaitEmpty\<rparr>, [])
         | t # q \<Rightarrow> take_next t q s1)"

text \<open>Line 309: a wait on an event that is set does not suspend.\<close>

definition wait_next :: "session \<Rightarrow> session \<times> effect list" where
  "wait_next s = (if next_flag s then loop_top s else (s\<lparr>pc := WaitNext\<rparr>, []))"

text \<open>After the wait of line 252 has returned: line 258.\<close>

definition after_wait_empty :: "session \<Rightarrow> session \<times> effect list" where
  "after_wait_empty s =
     (case queue s of
        [] \<Rightarrow> wait_next s
      | t # q \<Rightarrow> take_next t q s)"

text \<open>
  The resolver has answered. \<^verbatim>\<open>voice_client.play\<close> takes the source only on
  a client that is there and is not streaming; otherwise it raises, which is
  a failed start. Without the fallback the volume of the session is set on
  the source.
\<close>

definition start :: "start_result \<Rightarrow> session \<Rightarrow> (session \<times> effect list) option" where
  "start r s =
     (case current s of
        None \<Rightarrow> None
      | Some t \<Rightarrow>
          (case r of
             Started ttl fallback \<Rightarrow>
               (case voice_client s of
                  Voice None w \<Rightarrow>
                    if fallback
                    then Some (s\<lparr>voice_client := Voice (Some t) w, pc := SendingFallback ttl\<rparr>,
                               [Play t, Send FallbackNotice])
                    else Some (s\<lparr>voice_client := Voice (Some t) (volume s), pc := SendingNow\<rparr>,
                               [Play t, Send (NowPlaying ttl)])
                | _ \<Rightarrow> None)
           | StartFailed m \<Rightarrow> Some (s\<lparr>pc := SendingErr\<rparr>, [Send (ErrorPlaying m)])))"

text \<open>
  A \<^verbatim>\<open>self.ctx.send\<close> has returned or raised. In the handler of a failed
  start, \<^verbatim>\<open>_song_finished(None)\<close> and \<^verbatim>\<open>continue\<close> follow the message; an
  exception there reaches the outer handler, which sleeps.
\<close>

definition send_done :: "send_result \<Rightarrow> session \<Rightarrow> (session \<times> effect list) option" where
  "send_done r s =
     (case pc s of
        SendingFallback ttl \<Rightarrow>
          (case r of
             Sent \<Rightarrow> Some (s\<lparr>pc := SendingNow\<rparr>, [Send (NowPlaying ttl)])
           | SendError m \<Rightarrow> Some (s\<lparr>pc := SendingErr\<rparr>, [Send (ErrorPlaying m)]))
      | SendingNow \<Rightarrow>
          (case r of
             Sent \<Rightarrow> Some (wait_next s)
           | SendError m \<Rightarrow> Some (s\<lparr>pc := SendingErr\<rparr>, [Send (ErrorPlaying m)]))
      | SendingErr \<Rightarrow>
          (case r of
             Sent \<Rightarrow> Some (loop_top (s\<lparr>pending := Suc (pending s)\<rparr>))
           | SendError m \<Rightarrow> Some (s\<lparr>pc := Sleeping\<rparr>, []))
      | _ \<Rightarrow> None)"

text \<open>
  The timeout of line 251 has fired: \<^verbatim>\<open>return await self.cleanup()\<close>. The
  cleanup runs inside the task it cancels, so the task ends cancelled, whether
  the \<^verbatim>\<open>CancelledError\<close> arrives in the disconnect or at the return.
\<close>

definition loop_timeout :: "disc_result \<Rightarrow> session \<Rightarrow> session" where
  "loop_timeout d s = (snd (cleanup d s))\<lparr>pc := Returned, task := Cancelled\<rparr>"

text \<open>
  The events of a session. The first group resumes the coroutine at the
  suspension point it is at; the second group are the calls and callbacks that
  run between two suspensions of the loop.
\<close>

datatype event =
    Ready
  | Wake
  | Timeout disc_result
  | StartResult start_result
  | SendResult send_result
  | SleepDone
  | CancelDelivered
  | Enqueue string string "string + pyval"
  | Skip
  | Stop
  | Cleanup disc_result
  | SetVolume pyfloat
  | SongEnd
  | RunCallback

definition step :: "env \<Rightarrow> event \<Rightarrow> session \<Rightarrow> (session \<times> effect list) option" where
  "step E ev s =
     (case ev of
        Ready \<Rightarrow> if task s = Running \<and> pc s = WaitReady then Some (loop_top s) else None
      | Wake \<Rightarrow>
          if task s = Running \<and> next_flag s
          then (case pc s of
                  WaitEmpty \<Rightarrow> Some (after_wait_empty s)
                | WaitNext \<Rightarrow> Some (loop_top s)
                | _ \<Rightarrow> None)
          else None
      | Timeout d \<Rightarrow>
          if task s = Running \<and> pc s = WaitEmpty then Some (loop_timeout d s, []) else None
      | StartResult r \<Rightarrow> if task s = Running \<and> pc s = Starting then start r s else None
      | SendResult r \<Rightarrow> if task s = Running then send_done r s else None
      | SleepDone \<Rightarrow> if task s = Running \<and> pc s = Sleeping then Some (loop_top s) else None
      | CancelDelivered \<Rightarrow>
          if task s = CancelRequested \<and> pc s \<noteq> Returned
          then Some (s\<lparr>task := Cancelled, pc := Returned\<rparr>, [])
          else None
      | Enqueue author query outcome \<Rightarrow>
          Some (snd (add_to_queue E author query outcome s),
                (case build_track E author outcome of Inl e \<Rightarrow> [] | Inr t \<Rightarrow> [Appended t]))
      | Skip \<Rightarrow> Some (skip s, [])
      | Stop \<Rightarrow> Some (stop s, [])
      | Cleanup d \<Rightarrow> Some (snd (cleanup d s), [])
      | SetVolume v \<Rightarrow> Some (set_volume v s, [])
      | SongEnd \<Rightarrow> if is_playing (voice_client s) then Some (vc_stop s, []) else None
      | RunCallback \<Rightarrow>
          if 0 < pending s
          then Some (s\<lparr>next_flag := True, pending := pending s - 1\<rparr>, [])
          else None)"

text \<open>A sequence of events, with everything it lets out, in order.\<close>

fun run :: "env \<Rightarrow> event list \<Rightarrow> session \<Rightarrow> (session \<times> effect list) option" where
  "run E [] s = Some (s, [])"
| "run E (e # es) s =
     (case step E e s of
        None \<Rightarrow> None
      | Some (s1, o1) \<Rightarrow>
          (case run E es s1 of
             None \<Rightarrow> None
           | Some (s2, o2) \<Rightarrow> Some (s2, o1 @ o2)))"

fun popped :: "effect list \<Rightarrow> track list" where
  "popped [] = []"
| "popped (Popped t # os) = t # popped os"
| "popped (x # os) = popped os"

fun appended :: "effect list \<Rightarrow> track list" where
  "appended [] = []"
| "appended (Appended t # os) = t # appended os"
| "appended (x # os) = appended os"

fun played :: "effect list \<Rightarrow> track list" where
  "played [] = []"
| "played (Play t # os) = t # played os"
| "played (x # os) = played os"

fun sent :: "effect list \<Rightarrow> message list" where
  "sent [] = []"
| "sent (Send m # os) = m # sent os"
| "sent (x # os) = sent os"

section \<open>The command layer and the registry\<close>

datatype reply =
    NothingToSkip         \<comment> \<open>\<^verbatim>\<open>Nothing to skip!\<close>\<close>
  | SkippedSong           \<comment> \<open>\<^verbatim>\<open>Skipped current song\<close>\<close>
  | NothingPlaying        \<comment> \<open>\<^verbatim>\<open>Nothing is playing right now!\<close>\<close>
  | NowPlayingEmbed track


definition cmd_nowplaying :: "session \<Rightarrow> reply" where
  "cmd_nowplaying s = (case current s of None \<Rightarrow> NothingPlaying | Some t \<Rightarrow> NowPlayingEmbed t)"

text \<open>\<^verbatim>\<open>bot.music_players\<close>, from guild ids to players.\<close>

type_synonym registry = "nat \<rightharpoonup> session"

definition get_player :: "nat \<Rightarrow> voice \<Rightarrow> registry \<Rightarrow> session \<times> registry" where
  "get_player g vc R =
     (case R g of
        None \<Rightarrow> (new_player vc, R(g \<mapsto> new_player vc))
      | Some p \<Rightarrow> (p, R))"

text \<open>
  An event of the session of guild \<open>g\<close>. Nothing in \<^verbatim>\<open>MusicPlayer\<close> refers to
  the registry: the entry of the guild stays, with the session as the event
  left it.
\<close>

definition guild_step :: "env \<Rightarrow> nat \<Rightarrow> event \<Rightarrow> registry \<Rightarrow> (registry \<times> effect list) option" where
  "guild_step E g ev R =
     (case R g of
        None \<Rightarrow> None
      | Some s \<Rightarrow>
          (case step E ev s of
             None \<Rightarrow> None
           | Some (s', outs) \<Rightarrow> Some (R(g \<mapsto> s'), outs)))"

text \<open>
  The \<^verbatim>\<open>leave\<close> command pairs the cleanup of a player with its removal
  from the registry.
\<close>

definition cmd_leave :: "nat \<Rightarrow> registry \<Rightarrow> registry" where
  "cmd_leave g R =
     (case R g of
        None \<Rightarrow> R
      | Some p \<Rightarrow> if voice_client p = NoVoice then R else R(g := None))"

text \<open>
  The sweep of \<^verbatim>\<open>check_voice_connections\<close> (lines 84 to 92 of the bot): a
  player whose guild has no voice client, or a voice client that is not
  connected, is cleaned up and then removed from the registry; an exception
  that left the cleanup would leave the player registered. Whether the voice
  client of a guild is connected (\<^verbatim>\<open>is_connected()\<close>) and how the disconnect
  of a cleanup ends are given from outside.
\<close>

definition check_voice_connections :: "(nat \<Rightarrow> bool) \<Rightarrow> (nat \<Rightarrow> disc_result) \<Rightarrow> registry \<Rightarrow> registry" where
  "check_voice_connections is_connected d R =
     (\<lambda>g. case R g of
            None \<Rightarrow> None
          | Some p \<Rightarrow>
              if voice_client p = NoVoice \<or> \<not> is_connected g
              then (case cleanup (d g) p of
                      (None, p') \<Rightarrow> None
                    | (Some e, p') \<Rightarrow> Some p')
              else Some p)"

text \<open>
  The resolver outputs whose duration leaves \<^verbatim>\<open>add_to_queue\<close> as a
  non-negative number: no duration or \<^verbatim>\<open>None\<close>, a string that \<^verbatim>\<open>int\<close>
  rejects or reads as a non-negative integer, a non-negative number.
\<close>

fun duration_ok :: "env \<Rightarrow> pyval option \<Rightarrow> bool" where
  "duration_ok E None = True"
| "duration_ok E (Some PNone) = True"
| "duration_ok E (Some (PStr x)) = (case int_of_str E x of None \<Rightarrow> True | Some n \<Rightarrow> 0 \<le> n)"
| "duration_ok E (Some v) = nonneg v"



text \<open>
  The track that is next to be handed to the voice client: the one the loop
  has taken and is resolving, otherwise the head of the queue.
\<close>

definition next_up :: "session \<Rightarrow> track option" where
  "next_up s =
     (if pc s = Starting then current s
      else (case queue s of [] \<Rightarrow> None | t # q \<Rightarrow> Some t))"

section \<open>Sample data\<close>

text \<open>
  Data for the concrete runs below: an environment in which every query is a
  URL and \<^verbatim>\<open>int\<close> rejects every string; the resolver result for a name and
  the track that \<^verbatim>\<open>add_to_queue\<close> builds from it for the author \<^verbatim>\<open>ann\<close>; a
  voice client that is connected and silent; a session whose voice client
  streams its current track.
\<close>

definition env0 :: env where
  "env0 = \<lparr>re_is_url = (\<lambda>x. True), int_of_str = (\<lambda>x. None)\<rparr>"

definition found :: "string \<Rightarrow> string + pyval" where
  "found n = Inr (PDict [(''url'', PStr n), (''title'', PStr n)])"

definition song :: "string \<Rightarrow> track" where
  "song n = \<lparr>url = PStr n, title = PStr n, duration = PInt 0, webpage_url = PNone,
             thumbnail = PNone, requester = ''ann''\<rparr>"

definition silent :: voice where
  "silent = Voice None (Fin (1 / 2))"

definition streaming_session :: "track \<Rightarrow> track list \<Rightarrow> pc \<Rightarrow> session" where
  "streaming_session t q p =
     \<lparr> queue = q, current = Some t, next_flag = False, pending = 0, volume = Fin (1 / 2),
       pc = p, task = Running, voice_client = Voice (Some t) (Fin (1 / 2)) \<rparr>"

section \<open>Volume\<close>

lemma clamp_in_unit: "in_unit (pymax (Fin 0) (pymin (Fin 1) v))"
  by (cases v) (auto simp: pymax_def pymin_def)

lemma clamp_Fin: "pymax (Fin 0) (pymin (Fin 1) (Fin r)) = Fin (max 0 (min 1 r))"
  by (auto simp: pymax_def pymin_def max_def min_def)

lemma volume_set_volume: "volume (set_volume v s) = pymax (Fin 0) (pymin (Fin 1) v)"
  by (simp add: set_volume_def Let_def split: voice.splits option.splits)

lemma volume_fold_set_volume:
  "in_unit (volume s) \<Longrightarrow> in_unit (volume (fold set_volume vs s))"
  by (induction vs arbitrary: s) (simp_all add: volume_set_volume clamp_in_unit)

text \<open>
  C10. For every float \<open>v\<close> (NaN and the infinities included),
  \<^verbatim>\<open>set_volume(v)\<close> stores \<^verbatim>\<open>max(0.0, min(1.0, v))\<close>, which for a finite \<open>v\<close>
  is the number clamped into the unit interval; nothing is rejected. The
  stored volume lies in the unit interval after every call, hence after any
  sequence of calls on a new session (whose volume is 0.5).
\<close>

theorem set_volume_clamps:
  "volume (set_volume v s) = pymax (Fin 0) (pymin (Fin 1) v)
   \<and> volume (set_volume (Fin r) s) = Fin (max 0 (min 1 r))
   \<and> in_unit (volume (set_volume v s))
   \<and> in_unit (volume (fold set_volume vs (new_player vc)))"
proof -
  have "in_unit (volume (new_player vc))"
    by (simp add: new_player_def)
  then show ?thesis
    by (simp add: volume_set_volume clamp_in_unit clamp_Fin volume_fold_set_volume)
qed

section \<open>Enqueue: failure and the fields of a track\<close>

lemma build_track_failure:
  "build_track E a outcome = Inl e \<Longrightarrow>
   add_to_queue E a q outcome s =
     (Inl (CouldNotProcess (effective_query E q)
            (if asks_sign_in e then AuthRequired else CouldNotProcess (effective_query E q) e)), s)"
  by (simp add: add_to_queue_def enqueue_try_def Let_def)

text \<open>
  C5. When the resolution of a query fails (the resolver raises, or what it
  returns yields no track), \<^verbatim>\<open>add_to_queue\<close> raises an exception whose
  message names the query and the cause, and the session is exactly as it was
  before the call: nothing is appended, and the queue, the current slot, the
  event and the loop are untouched.
\<close>

theorem enqueue_failure_atomic:
  assumes "build_track E a outcome = Inl e"
  shows "snd (add_to_queue E a q outcome s) = s
     \<and> fst (add_to_queue E a q outcome s) =
         Inl (CouldNotProcess (effective_query E q)
               (if asks_sign_in e then AuthRequired
                else CouldNotProcess (effective_query E q) e))"
  using assms by (simp add: build_track_failure)

theorem enqueue_failure_atomic_witness:
  "build_track \<lparr>re_is_url = (\<lambda>x. False), int_of_str = (\<lambda>x. None)\<rparr> ''ann'' (Inl ''Video unavailable'')
     = Inl (ExtractError ''Video unavailable'')
   \<and> snd (add_to_queue \<lparr>re_is_url = (\<lambda>x. False), int_of_str = (\<lambda>x. None)\<rparr> ''ann'' '' (live) set ''
           (Inl ''Video unavailable'') (new_player (Voice None (Fin (1 / 2)))))
       = new_player (Voice None (Fin (1 / 2)))
   \<and> fst (add_to_queue \<lparr>re_is_url = (\<lambda>x. False), int_of_str = (\<lambda>x. None)\<rparr> ''ann'' '' (live) set ''
           (Inl ''Video unavailable'') (new_player (Voice None (Fin (1 / 2)))))
       = Inl (CouldNotProcess ''ytsearch:live set''
               (CouldNotProcess ''ytsearch:live set'' (ExtractError ''Video unavailable'')))"
proof -
  have b: "build_track \<lparr>re_is_url = (\<lambda>x. False), int_of_str = (\<lambda>x. None)\<rparr> ''ann'' (Inl ''Video unavailable'')
     = Inl (ExtractError ''Video unavailable'')"
    by (simp add: build_track_def)
  have q: "effective_query \<lparr>re_is_url = (\<lambda>x. False), int_of_str = (\<lambda>x. None)\<rparr> '' (live) set '' = ''ytsearch:live set''"
    by (simp add: effective_query_def strip_def is_space_def)
  have n: "\<not> asks_sign_in (ExtractError ''Video unavailable'')"
    by simp
  show ?thesis
    using enqueue_failure_atomic [OF b, of "'' (live) set ''" "new_player (Voice None (Fin (1 / 2)))"] b q n
    by simp
qed

lemma process_duration_nonneg:
  "duration_ok E v \<Longrightarrow> nonneg (process_duration E (case v of None \<Rightarrow> PNone | Some x \<Rightarrow> x))"
  by (induction E v rule: duration_ok.induct) (auto simp: process_duration_def split: option.splits)

lemma add_to_queue_Inr:
  "fst (add_to_queue E a q (Inr data) s) = Inr t \<Longrightarrow> select_entry data = Inr (PDict d) \<Longrightarrow>
   song_info E a (PDict d) = Inr t"
  by (auto simp: add_to_queue_def enqueue_try_def build_track_def Let_def split: sum.splits if_splits)

text \<open>
  C8, as amended. A track built by the enqueue path has a duration that is a
  non-negative number whenever the resolver reported no duration, \<^verbatim>\<open>None\<close>,
  a non-negative number, or a string that \<^verbatim>\<open>int\<close> rejects or reads as a
  non-negative integer; the duration is 0 when the resolver reported none,
  \<^verbatim>\<open>None\<close>, or a string that \<^verbatim>\<open>int\<close> rejects. The title is
  \<^verbatim>\<open>Unknown title\<close> when the resolver output has no title key. The requester
  is the author of the command.
\<close>

theorem enqueued_track_fields:
  assumes "fst (add_to_queue E a q (Inr data) s) = Inr t"
    and "select_entry data = Inr (PDict d)"
  shows "(duration_ok E (map_of d ''duration'') \<longrightarrow> nonneg (duration t))
     \<and> (map_of d ''duration'' = None \<or> map_of d ''duration'' = Some PNone \<longrightarrow> duration t = PInt 0)
     \<and> (\<forall>x. map_of d ''duration'' = Some (PStr x) \<and> int_of_str E x = None \<longrightarrow> duration t = PInt 0)
     \<and> (map_of d ''title'' = None \<longrightarrow> title t = PStr ''Unknown title'')
     \<and> requester t = a"
proof -
  have "song_info E a (PDict d) = Inr t"
    using assms by (rule add_to_queue_Inr)
  then have t: "t = \<lparr> url = dict_get d ''url'' (dict_get d ''webpage_url'' PNone),
                title = dict_get d ''title'' (PStr ''Unknown title''),
                duration = process_duration E (dict_get d ''duration'' PNone),
                webpage_url = dict_get d ''webpage_url'' PNone,
                thumbnail = dict_get d ''thumbnail'' PNone,
                requester = a \<rparr>"
    by (simp add: song_info_def)
  have "duration_ok E (map_of d ''duration'') \<longrightarrow> nonneg (duration t)"
    by (simp add: t dict_get_def process_duration_nonneg)
  moreover have "map_of d ''duration'' = None \<or> map_of d ''duration'' = Some PNone \<longrightarrow> duration t = PInt 0"
    by (auto simp: t dict_get_def process_duration_def)
  moreover have "\<forall>x. map_of d ''duration'' = Some (PStr x) \<and> int_of_str E x = None \<longrightarrow> duration t = PInt 0"
    by (auto simp: t dict_get_def process_duration_def)
  moreover have "map_of d ''title'' = None \<longrightarrow> title t = PStr ''Unknown title''"
    by (simp add: t dict_get_def)
  moreover have "requester t = a"
    by (simp add: t)
  ultimately show ?thesis by blast
qed

theorem enqueued_track_fields_witness:
  "fst (add_to_queue \<lparr>re_is_url = (\<lambda>x. True), int_of_str = (\<lambda>x. None)\<rparr> ''ann'' ''https://youtu.be/abc''
         (Inr (PDict [(''entries'', PList [PDict [(''url'', PStr ''https://cdn/a''), (''duration'', PStr ''n/a'')]])]))
         (new_player (Voice None (Fin (1 / 2)))))
     = Inr \<lparr> url = PStr ''https://cdn/a'', title = PStr ''Unknown title'', duration = PInt 0,
             webpage_url = PNone, thumbnail = PNone, requester = ''ann'' \<rparr>
   \<and> select_entry (PDict [(''entries'', PList [PDict [(''url'', PStr ''https://cdn/a''), (''duration'', PStr ''n/a'')]])])
     = Inr (PDict [(''url'', PStr ''https://cdn/a''), (''duration'', PStr ''n/a'')])
   \<and> duration_ok \<lparr>re_is_url = (\<lambda>x. True), int_of_str = (\<lambda>x. None)\<rparr>
        (map_of [(''url'', PStr ''https://cdn/a''), (''duration'', PStr ''n/a'')] ''duration'')
   \<and> nonneg (duration \<lparr> url = PStr ''https://cdn/a'', title = PStr ''Unknown title'', duration = PInt 0,
             webpage_url = PNone, thumbnail = PNone, requester = ''ann'' \<rparr>)"
proof -
  let ?E = "\<lparr>re_is_url = (\<lambda>x. True), int_of_str = (\<lambda>x. None)\<rparr>"
  let ?d = "[(''url'', PStr ''https://cdn/a''), (''duration'', PStr ''n/a'')]"
  let ?t = "\<lparr> url = PStr ''https://cdn/a'', title = PStr ''Unknown title'', duration = PInt 0,
             webpage_url = PNone, thumbnail = PNone, requester = ''ann'' \<rparr>"
  have sel: "select_entry (PDict [(''entries'', PList [PDict ?d])]) = Inr (PDict ?d)"
    by (simp add: select_entry_def)
  have built: "fst (add_to_queue ?E ''ann'' ''https://youtu.be/abc''
         (Inr (PDict [(''entries'', PList [PDict ?d])])) (new_player (Voice None (Fin (1 / 2))))) = Inr ?t"
    by (simp add: add_to_queue_def enqueue_try_def build_track_def sel song_info_def
        process_duration_def dict_get_def new_player_def Let_def)
  have ok: "duration_ok ?E (map_of ?d ''duration'')"
    by simp
  show ?thesis
    using enqueued_track_fields [OF built sel] built sel ok by simp
qed

text \<open>
  C8 as stated fails: a resolver output with a negative duration and a title
  that is present but \<^verbatim>\<open>None\<close> is enqueued with both kept as they are.
\<close>

theorem enqueued_track_negative_duration:
  "fst (add_to_queue \<lparr>re_is_url = (\<lambda>x. True), int_of_str = (\<lambda>x. None)\<rparr> ''ann'' ''https://youtu.be/abc''
         (Inr (PDict [(''url'', PStr ''https://cdn/a''), (''title'', PNone), (''duration'', PInt (- 5))]))
         (new_player (Voice None (Fin (1 / 2)))))
     = Inr \<lparr> url = PStr ''https://cdn/a'', title = PNone, duration = PInt (- 5),
             webpage_url = PNone, thumbnail = PNone, requester = ''ann'' \<rparr>
   \<and> \<not> nonneg (duration \<lparr> url = PStr ''https://cdn/a'', title = PNone, duration = PInt (- 5),
             webpage_url = PNone, thumbnail = PNone, requester = ''ann'' \<rparr>)"
  by (simp add: add_to_queue_def enqueue_try_def build_track_def select_entry_def song_info_def
      process_duration_def dict_get_def new_player_def Let_def)

section \<open>Basic facts about the operations\<close>

lemma is_playing_vc_stop: "\<not> is_playing (voice_client (vc_stop s))"
  by (cases "voice_client s" rule: is_playing.cases) (simp_all add: vc_stop_def)

lemma vc_stop_fields:
  "queue (vc_stop s) = queue s" "current (vc_stop s) = current s" "pc (vc_stop s) = pc s"
  "task (vc_stop s) = task s" "next_flag (vc_stop s) = next_flag s" "volume (vc_stop s) = volume s"
  "(voice_client (vc_stop s) = NoVoice) = (voice_client s = NoVoice)"
  by (simp_all add: vc_stop_def split: voice.splits option.splits)

lemma vc_stop_playing:
  "is_playing (voice_client s) \<Longrightarrow> pending (vc_stop s) = Suc (pending s)"
  by (cases "voice_client s" rule: is_playing.cases) (simp_all add: vc_stop_def)


lemma stop_eq: "stop s = vc_stop (s\<lparr>queue := []\<rparr>)"
  by (cases "voice_client s" rule: is_playing.cases) (simp_all add: stop_def vc_stop_def Let_def)

lemma skip_eq: "skip s = vc_stop s"
  by (cases "voice_client s" rule: is_playing.cases) (simp_all add: skip_def vc_stop_def Let_def)

lemma set_volume_fields:
  "queue (set_volume v s) = queue s" "pc (set_volume v s) = pc s" "current (set_volume v s) = current s"
  by (simp_all add: set_volume_def Let_def split: voice.splits option.splits)

lemma add_to_queue_queue:
  "queue (snd (add_to_queue E a q outcome s)) =
     queue s @ (case build_track E a outcome of Inl e \<Rightarrow> [] | Inr t \<Rightarrow> [t])"
  by (simp add: add_to_queue_def enqueue_try_def Let_def split: sum.splits)

lemma add_to_queue_fields:
  "pc (snd (add_to_queue E a q outcome s)) = pc s"
  "current (snd (add_to_queue E a q outcome s)) = current s"
  by (simp_all add: add_to_queue_def enqueue_try_def Let_def split: sum.splits)

lemma cleanup_returns: "fst (cleanup d s) = None"
  by (simp add: cleanup_def split: prod.splits option.splits)

lemma snd_cleanup: "snd (cleanup d s) = snd (cleanup_try d s)"
  by (simp add: cleanup_def split: prod.splits option.splits)

lemma cleanup_fields:
  "pc (snd (cleanup d s)) = pc s" "current (snd (cleanup d s)) = current s"
  by (cases d; simp add: cleanup_def cleanup_try_def vc_stop_fields Let_def split: prod.splits option.splits)+

text \<open>The definitions that a concrete run unfolds.\<close>

lemmas loop_defs = step_def loop_top_def wait_next_def after_wait_empty_def take_next_def start_def
  send_done_def vc_stop_def add_to_queue_def enqueue_try_def build_track_def select_entry_def
  song_info_def process_duration_def dict_get_def effective_query_def new_player_def Let_def

lemmas sample_defs = env0_def found_def song_def silent_def streaming_session_def

lemma popped_append: "popped (xs @ ys) = popped xs @ popped ys"
  by (induction xs rule: popped.induct) simp_all

lemma appended_append: "appended (xs @ ys) = appended xs @ appended ys"
  by (induction xs rule: appended.induct) simp_all


lemma sent_append: "sent (xs @ ys) = sent xs @ sent ys"
  by (induction xs rule: sent.induct) simp_all

section \<open>Stop\<close>

lemma stop_clears_and_halts:
  "queue (stop s) = [] \<and> \<not> is_playing (voice_client (stop s))
   \<and> pc (stop s) = pc s \<and> task (stop s) = task s \<and> current (stop s) = current s
   \<and> (voice_client (stop s) = NoVoice) = (voice_client s = NoVoice)"
  by (simp add: stop_eq is_playing_vc_stop vc_stop_fields)

text \<open>
  C3. The claim is that \<^verbatim>\<open>stop\<close> leaves every session that is not
  terminated idle, with an empty queue and no active stream. \<^verbatim>\<open>stop\<close>
  clears the queue and halts the voice client only if it is streaming at that
  moment. In the run below the loop has taken the one queued track and is
  resolving it when \<^verbatim>\<open>stop\<close> is called: the call changes nothing, and when
  the resolver answers the loop hands the track to the voice client, so the
  session streams after the stop. Also where \<^verbatim>\<open>stop\<close> does halt a stream,
  the current slot keeps the halted track.
\<close>

theorem stop_during_start_streams:
  "\<exists>s1 o1 s2 o2.
     run env0 [Ready, Enqueue ''ann'' ''one'' (found ''one''), Wake] (new_player silent) = Some (s1, o1)
     \<and> pc s1 = Starting \<and> current s1 = Some (song ''one'') \<and> queue s1 = []
     \<and> \<not> is_playing (voice_client s1)
     \<and> stop s1 = s1
     \<and> run env0 [Stop, StartResult (Started (PStr ''one'') False), SendResult Sent] s1 = Some (s2, o2)
     \<and> streaming (voice_client s2) = Some (song ''one'')
     \<and> played o2 = [song ''one'']
     \<and> current (stop (streaming_session (song ''one'') [song ''two''] WaitNext)) = Some (song ''one'')
     \<and> \<not> is_playing (voice_client (stop (streaming_session (song ''one'') [song ''two''] WaitNext)))"
  by (simp add: loop_defs sample_defs stop_def)

section \<open>Cleanup\<close>

lemma cleanup_try_twice: "snd (cleanup_try d (snd (cleanup_try d s))) = snd (cleanup_try d s)"
  by (cases d) (auto simp: cleanup_try_def Let_def vc_stop_def split: voice.splits option.splits)

lemma cleanup_try_released:
  "voice_client (snd (cleanup_try Disconnected s)) = NoVoice"
  by (auto simp: cleanup_try_def Let_def vc_stop_def split: voice.splits option.splits)

lemma cleanup_try_queue_task:
  "queue (snd (cleanup_try d s)) = []" "task (snd (cleanup_try d s)) \<noteq> Running"
  by (cases d; auto simp: cleanup_try_def Let_def vc_stop_def split: voice.splits option.splits)+

lemma cleanup_try_terminated:
  "queue s = [] \<Longrightarrow> task s \<noteq> Running \<Longrightarrow> voice_client s = NoVoice \<Longrightarrow> snd (cleanup_try d s) = s"
  by (cases "task s") (auto simp: cleanup_try_def Let_def)

text \<open>
  C9. \<^verbatim>\<open>cleanup\<close> never raises. Two consecutive calls leave the session
  as one call does: the queue empty, the loop task cancelled or asked to
  cancel, and, when the disconnect goes through, no voice client. On a session
  that is already terminated (empty queue, loop not running, voice client
  released) it changes nothing.
\<close>

theorem cleanup_idempotent:
  "fst (cleanup d s) = None
   \<and> snd (cleanup d (snd (cleanup d s))) = snd (cleanup d s)
   \<and> queue (snd (cleanup d s)) = []
   \<and> task (snd (cleanup d s)) \<noteq> Running
   \<and> voice_client (snd (cleanup Disconnected s)) = NoVoice
   \<and> cleanup d' (snd (cleanup Disconnected s)) = (None, snd (cleanup Disconnected s))
   \<and> (queue s = [] \<and> task s \<noteq> Running \<and> voice_client s = NoVoice \<longrightarrow> cleanup d s = (None, s))"
proof -
  have "cleanup d' (snd (cleanup Disconnected s)) = (None, snd (cleanup Disconnected s))"
    by (rule prod_eqI)
       (simp_all add: cleanup_returns snd_cleanup cleanup_try_terminated cleanup_try_released
          cleanup_try_queue_task)
  moreover have "queue s = [] \<and> task s \<noteq> Running \<and> voice_client s = NoVoice \<longrightarrow> cleanup d s = (None, s)"
    by (auto intro!: prod_eqI simp: cleanup_returns snd_cleanup cleanup_try_terminated)
  ultimately show ?thesis
    by (simp add: cleanup_returns snd_cleanup cleanup_try_twice cleanup_try_released
        cleanup_try_queue_task)
qed

theorem cleanup_idempotent_witness:
  "queue \<lparr> queue = [], current = None, next_flag = False, pending = 0, volume = Fin (1 / 2),
           pc = Returned, task = Cancelled, voice_client = NoVoice \<rparr> = []
   \<and> task \<lparr> queue = [], current = None, next_flag = False, pending = 0, volume = Fin (1 / 2),
           pc = Returned, task = Cancelled, voice_client = NoVoice \<rparr> \<noteq> Running
   \<and> voice_client \<lparr> queue = [], current = None, next_flag = False, pending = 0, volume = Fin (1 / 2),
           pc = Returned, task = Cancelled, voice_client = NoVoice \<rparr> = NoVoice
   \<and> cleanup Disconnected \<lparr> queue = [], current = None, next_flag = False, pending = 0,
           volume = Fin (1 / 2), pc = Returned, task = Cancelled, voice_client = NoVoice \<rparr>
       = (None, \<lparr> queue = [], current = None, next_flag = False, pending = 0,
           volume = Fin (1 / 2), pc = Returned, task = Cancelled, voice_client = NoVoice \<rparr>)"
  using cleanup_idempotent [of Disconnected
      "\<lparr> queue = [], current = None, next_flag = False, pending = 0, volume = Fin (1 / 2),
         pc = Returned, task = Cancelled, voice_client = NoVoice \<rparr>"]
  by simp

section \<open>Skip\<close>

text \<open>A loop that is resolving a track has a track in its current slot.\<close>

lemma loop_top_current: "loop_top s = (s', out) \<Longrightarrow> pc s' \<noteq> Starting \<or> current s' \<noteq> None"
  by (auto simp: loop_top_def take_next_def Let_def split: list.splits)

lemma wait_next_current: "wait_next s = (s', out) \<Longrightarrow> pc s' \<noteq> Starting \<or> current s' \<noteq> None"
  by (cases "next_flag s") (auto simp: wait_next_def dest: loop_top_current)

lemma after_wait_empty_current:
  "after_wait_empty s = (s', out) \<Longrightarrow> pc s' \<noteq> Starting \<or> current s' \<noteq> None"
  by (cases "queue s") (auto simp: after_wait_empty_def take_next_def dest: wait_next_current)

lemma start_current: "start r s = Some (s', out) \<Longrightarrow> pc s' \<noteq> Starting"
  by (auto simp: start_def split: option.splits start_result.splits voice.splits if_splits)

lemma send_done_current:
  assumes "send_done r s = Some (s', out)"
  shows "pc s' \<noteq> Starting \<or> current s' \<noteq> None"
proof (cases "pc s")
  case (SendingFallback ttl)
  with assms show ?thesis
    by (cases r) (auto simp: send_done_def)
next
  case SendingNow
  with assms show ?thesis
    by (cases r) (auto simp: send_done_def dest: wait_next_current)
next
  case SendingErr
  with assms show ?thesis
    by (cases r) (auto simp: send_done_def dest: loop_top_current)
qed (use assms in \<open>simp_all add: send_done_def\<close>)

lemma step_current:
  assumes "step E e s = Some (s', out)" and "pc s \<noteq> Starting \<or> current s \<noteq> None"
  shows "pc s' \<noteq> Starting \<or> current s' \<noteq> None"
proof (cases e)
  case Ready
  with assms(1) have "loop_top s = (s', out)"
    by (auto simp: step_def split: if_splits)
  then show ?thesis by (rule loop_top_current)
next
  case Wake
  with assms(1) have "after_wait_empty s = (s', out) \<or> loop_top s = (s', out)"
    by (auto simp: step_def split: if_splits pc.splits)
  then show ?thesis
    using loop_top_current [of s s' out] after_wait_empty_current [of s s' out] by blast
next
  case (Timeout d)
  with assms(1) show ?thesis
    by (auto simp: step_def loop_timeout_def split: if_splits)
next
  case (StartResult r)
  with assms(1) have "start r s = Some (s', out)"
    by (auto simp: step_def split: if_splits)
  then show ?thesis
    by (simp add: start_current)
next
  case (SendResult r)
  with assms(1) have "send_done r s = Some (s', out)"
    by (auto simp: step_def split: if_splits)
  then show ?thesis by (rule send_done_current)
next
  case SleepDone
  with assms(1) have "loop_top s = (s', out)"
    by (auto simp: step_def split: if_splits)
  then show ?thesis by (rule loop_top_current)
next
  case CancelDelivered
  with assms(1) show ?thesis
    by (auto simp: step_def split: if_splits)
next
  case (Enqueue a q outcome)
  with assms show ?thesis
    by (auto simp: step_def add_to_queue_fields)
next
  case Skip
  with assms show ?thesis
    by (auto simp: step_def skip_eq vc_stop_fields)
next
  case Stop
  with assms show ?thesis
    by (auto simp: step_def stop_eq vc_stop_fields)
next
  case (Cleanup d)
  with assms show ?thesis
    by (auto simp: step_def cleanup_fields)
next
  case (SetVolume v)
  with assms show ?thesis
    by (auto simp: step_def set_volume_fields)
next
  case SongEnd
  with assms show ?thesis
    by (auto simp: step_def vc_stop_fields split: if_splits)
next
  case RunCallback
  with assms show ?thesis
    by (auto simp: step_def split: if_splits)
qed

lemma run_current:
  "run E es s = Some (s', outs) \<Longrightarrow> pc s \<noteq> Starting \<or> current s \<noteq> None \<Longrightarrow>
   pc s' \<noteq> Starting \<or> current s' \<noteq> None"
proof (induction es arbitrary: s outs)
  case Nil
  then show ?case by simp
next
  case (Cons e es)
  from Cons.prems(1) obtain s1 o1 o2 where
    st: "step E e s = Some (s1, o1)" and rn: "run E es s1 = Some (s', o2)"
    by (auto split: option.splits prod.splits)
  from step_current [OF st Cons.prems(2)] have "pc s1 \<noteq> Starting \<or> current s1 \<noteq> None" .
  from Cons.IH [OF rn this] show ?case .
qed

lemma reachable_starting_has_track:
  "run E es (new_player vc) = Some (s, outs) \<Longrightarrow> pc s = Starting \<Longrightarrow> next_up s \<noteq> None"
  using run_current [of E es "new_player vc" s outs]
  by (simp add: new_player_def next_up_def)







section \<open>Order of playback\<close>

text \<open>
  C1. The claim is that the tracks enqueued on an idle session are played
  back in the order in which the enqueue calls completed. The loop does take
  the tracks from the head of the queue in that order, but it does not play
  them all. The event \<^verbatim>\<open>self.next\<close> is cleared only at the head of the
  \<^verbatim>\<open>while\<close>; a loop woken from the wait on an empty queue therefore starts
  its track with the event still set, does not suspend in the wait at the end
  of the body, and takes the following track at once. In the run below three
  tracks are enqueued and every resolver call succeeds. After the first track
  has been started, the loop is back in the wait on the empty queue, under its
  timeout, while the track streams: if the timeout fires there, the cleanup
  disconnects the voice client in the middle of the track. When the first
  track has ended, the second
  is started and the third is taken while the second streams: the voice client
  cannot take it (the start is not enabled), the start fails, the failure is
  reported and the track is discarded. The third track is never played.
\<close>

theorem queued_track_dropped:
  "\<exists>s0 o0 s1 o1 s2 o2.
     run env0
       [Ready, Enqueue ''ann'' ''one'' (found ''one''), Wake,
        StartResult (Started (PStr ''one'') False), SendResult Sent]
       (new_player silent) = Some (s0, o0)
     \<and> pc s0 = WaitEmpty \<and> streaming (voice_client s0) = Some (song ''one'')
     \<and> step env0 (Timeout Disconnected) s0
         = Some (s0\<lparr>task := Cancelled, pc := Returned, pending := 1, voice_client := NoVoice\<rparr>, [])
     \<and> run env0
         [Enqueue ''ann'' ''two'' (found ''two''), Enqueue ''ann'' ''three'' (found ''three''),
          SongEnd, RunCallback, Wake,
          StartResult (Started (PStr ''two'') False), SendResult Sent]
         s0 = Some (s1, o1)
     \<and> appended (o0 @ o1) = [song ''one'', song ''two'', song ''three'']
     \<and> popped (o0 @ o1) = [song ''one'', song ''two'', song ''three'']
     \<and> played (o0 @ o1) = [song ''one'', song ''two'']
     \<and> pc s1 = Starting \<and> current s1 = Some (song ''three'')
     \<and> streaming (voice_client s1) = Some (song ''two'')
     \<and> step env0 (StartResult (Started (PStr ''three'') False)) s1 = None
     \<and> step env0 (StartResult (Started (PStr ''three'') True)) s1 = None
     \<and> run env0
         [StartResult (StartFailed ''Already playing audio.''), SendResult Sent,
          RunCallback, Wake, SongEnd, RunCallback, Wake]
         s1 = Some (s2, o2)
     \<and> sent o2 = [ErrorPlaying ''Already playing audio.'']
     \<and> played o2 = []
     \<and> queue s2 = [] \<and> pc s2 = WaitEmpty \<and> \<not> is_playing (voice_client s2)"
  by (simp add: loop_defs sample_defs loop_timeout_def cleanup_def cleanup_try_def)

section \<open>A start that fails\<close>







section \<open>The current slot\<close>

text \<open>
  C7. The claim is that a non-empty current slot means that the voice client
  is streaming that track. The loop assigns \<^verbatim>\<open>self.current\<close> when it takes
  a track and never resets it: in the run below a track is enqueued, started
  and played to its end, after which the current slot still holds it while the
  voice client streams nothing, and the \<^verbatim>\<open>nowplaying\<close> command, which
  answers \<^verbatim>\<open>Nothing is playing right now!\<close> on an empty slot, still shows
  the track.
\<close>

theorem current_stale_after_track_end:
  "\<exists>s' outs.
     run env0
       [Ready, Enqueue ''ann'' ''one'' (found ''one''), Wake,
        StartResult (Started (PStr ''one'') False), SendResult Sent,
        SongEnd, RunCallback, Wake]
       (new_player silent) = Some (s', outs)
     \<and> played outs = [song ''one'']
     \<and> current s' = Some (song ''one'')
     \<and> \<not> is_playing (voice_client s')
     \<and> streaming (voice_client s') = None
     \<and> queue s' = [] \<and> pc s' = WaitEmpty
     \<and> cmd_nowplaying s' = NowPlayingEmbed (song ''one'')"
  by (simp add: loop_defs sample_defs cmd_nowplaying_def)

section \<open>The idle timeout and the registry\<close>

text \<open>
  C2. The claim is that the idle timeout terminates the session, releases the
  voice client, clears the queue and removes the session from the registry.
  The first three happen; the registry keeps the entry. After the timeout of
  the idle session of guild 7 the registry still maps the guild to the
  terminated session, \<^verbatim>\<open>get_player\<close> returns that session, and a track
  enqueued into it is appended and never taken, since its loop has ended. The
  \<^verbatim>\<open>leave\<close> command removes the entry of a session it cleans up, and so does
  the sweep of \<^verbatim>\<open>check_voice_connections\<close> as long as the guild has no
  voice client; once the guild has a connected voice client again (the field
  update below), the sweep keeps the terminated session.
\<close>

theorem idle_timeout_keeps_registry_entry:
  "\<exists>R' s'.
     guild_step env0 7 (Timeout Disconnected) [7 \<mapsto> (new_player silent)\<lparr>pc := WaitEmpty\<rparr>]
       = Some (R', [])
     \<and> R' 7 = Some s'
     \<and> pc s' = Returned \<and> task s' = Cancelled
     \<and> queue s' = [] \<and> voice_client s' = NoVoice
     \<and> get_player 7 silent R' = (s', R')
     \<and> queue (snd (add_to_queue env0 ''ann'' ''one'' (found ''one'') s')) = [song ''one'']
     \<and> step env0 Wake (snd (add_to_queue env0 ''ann'' ''one'' (found ''one'') s')) = None
     \<and> cmd_leave 7 [7 \<mapsto> (new_player silent)\<lparr>pc := WaitEmpty\<rparr>] 7 = None
     \<and> check_voice_connections (\<lambda>g. True) (\<lambda>g. Disconnected) R' 7 = None
     \<and> check_voice_connections (\<lambda>g. True) (\<lambda>g. Disconnected)
           (R'(7 \<mapsto> s'\<lparr>voice_client := silent\<rparr>)) 7
         = Some (s'\<lparr>voice_client := silent\<rparr>)"
  by (simp add: guild_step_def loop_timeout_def cleanup_def cleanup_try_def
      get_player_def cmd_leave_def check_voice_connections_def loop_defs sample_defs)

end
